theory Spec2Isabelle
  imports Main "HOL-Library.Multiset"
begin

section \<open>Records of the four resources\<close>

text \<open>
  The pages \<^verbatim>\<open>Todos\<close>, \<^verbatim>\<open>Comments\<close>, \<^verbatim>\<open>Posts\<close> and \<^verbatim>\<open>Recipes\<close> each declare
  an interface for their entity. A field \<^verbatim>\<open>f\<close> of interface \<^verbatim>\<open>Todo\<close> is the selector
  \<open>todo_f\<close> here (the interfaces share field names, and \<^verbatim>\<open>id\<close> is a constant of HOL).
  The JavaScript type \<^verbatim>\<open>number\<close> of the key fields is read as \<open>int\<close>: keys are the
  integers the service assigns, and \<^verbatim>\<open>===\<close> / \<^verbatim>\<open>!==\<close> on them are \<open>=\<close> / \<open>\<noteq>\<close>.
\<close>

record Todo =
  todo_id :: int
  todo_todo :: string
  todo_completed :: bool
  todo_userId :: int

record Comment =
  comment_id :: int
  comment_body :: string

record Post =
  post_id :: int
  post_title :: string
  post_body :: string
  post_tags :: "string list"
  post_views :: int
  post_userId :: int

record Recipe =
  recipe_id :: int
  recipe_name :: string
  recipe_ingredients :: "string list"
  recipe_instructions :: string

text \<open>
  The variables of the create mutations: \<^verbatim>\<open>Omit<Todo, "id">\<close>, the form state
  \<^verbatim>\<open>{ body }\<close> of the comments page, \<^verbatim>\<open>Omit<Post, "id" | "views">\<close> and the object
  \<^verbatim>\<open>{ name, ingredients, instructions }\<close> built by \<^verbatim>\<open>handleSubmit\<close> of the recipes page.
\<close>

record NewTodo =
  newTodo_todo :: string
  newTodo_completed :: bool
  newTodo_userId :: int

record NewComment =
  newComment_body :: string

record NewPost =
  newPost_title :: string
  newPost_body :: string
  newPost_tags :: "string list"
  newPost_userId :: int

record NewRecipe =
  newRecipe_name :: string
  newRecipe_ingredients :: "string list"
  newRecipe_instructions :: string

section \<open>The remote service, the console and the query client\<close>

text \<open>
  An \<^verbatim>\<open>axios\<close> call either rejects with an error or resolves with a response whose
  \<^verbatim>\<open>data\<close> is the body the service sent. The resolution of the one request a mutation
  function awaits is an input of the model: \<open>Inl\<close> the rejection, \<open>Inr\<close> the body.
\<close>

datatype axios_error = AxiosError string

type_synonym 'b axios_result = "axios_error + 'b"

text \<open>
  What the handlers print: \<^verbatim>\<open>console.log(msg)\<close>, \<^verbatim>\<open>console.log\<close> of a template literal
  ending in a number, and \<^verbatim>\<open>console.error(msg, error)\<close>.
\<close>

datatype console_entry =
    Console_log string
  | Console_log_id string int
  | Console_error string axios_error

text \<open>
  \<^verbatim>\<open>App\<close> creates one \<^verbatim>\<open>QueryClient\<close> for all pages. The four pages keep their
  collections under the query keys \<^verbatim>\<open>["todos"]\<close>, \<^verbatim>\<open>["comments"]\<close>, \<^verbatim>\<open>["posts"]\<close> and
  \<^verbatim>\<open>["recipes"]\<close>; the data of a key that has none yet is \<^verbatim>\<open>undefined\<close>, here \<open>None\<close>.
  The component-local form state (\<^verbatim>\<open>useState\<close>) is never read by a cache updater and is
  not part of the state.
\<close>

record world =
  todos :: "Todo list option"
  comments :: "Comment list option"
  posts :: "Post list option"
  recipes :: "Recipe list option"
  console :: "console_entry list"

text \<open>
  \<^verbatim>\<open>queryClient.setQueryData(key, updater)\<close> with a function as updater: the function is
  applied to the data now stored under the key, and a result of \<^verbatim>\<open>undefined\<close> leaves the
  stored data as it is.
\<close>

definition setQueryData :: "('r list option \<Rightarrow> 'r list option) \<Rightarrow> 'r list option \<Rightarrow> 'r list option" where
  "setQueryData updater old = (case updater old of None \<Rightarrow> old | Some new \<Rightarrow> Some new)"

text \<open>
  \<^verbatim>\<open>x || []\<close> and \<^verbatim>\<open>x ? f(x) : d\<close> on a value that is an array or \<^verbatim>\<open>undefined\<close>: every
  array, the empty one too, is truthy, so the test only asks whether \<open>x\<close> is defined.
  \<^verbatim>\<open>x?.m(...)\<close> is \<open>map_option\<close>, and a parameter default \<^verbatim>\<open>(x = [])\<close> is \<open>or_else x []\<close>.
\<close>

definition or_else :: "'a option \<Rightarrow> 'a \<Rightarrow> 'a" where
  "or_else x d = (case x of None \<Rightarrow> d | Some v \<Rightarrow> v)"

text \<open>
  \<^verbatim>\<open>useMutation({ mutationFn, onSuccess, onError }).mutate(variables)\<close>: the mutation
  function runs once; when it resolves, \<^verbatim>\<open>onSuccess(data, variables)\<close> runs, when it
  rejects, \<^verbatim>\<open>onError(error)\<close> runs if the options have one.
\<close>

definition useMutation ::
  "('v \<Rightarrow> 'res \<Rightarrow> world \<Rightarrow> (axios_error + 'd) \<times> world) \<Rightarrow>
   ('d \<Rightarrow> 'v \<Rightarrow> world \<Rightarrow> world) \<Rightarrow>
   (axios_error \<Rightarrow> world \<Rightarrow> world) option \<Rightarrow>
   'v \<Rightarrow> 'res \<Rightarrow> world \<Rightarrow> world" where
  "useMutation mutationFn onSuccess onError variables res w =
     (case mutationFn variables res w of
        (Inr data, w') \<Rightarrow> onSuccess data variables w'
      | (Inl error, w') \<Rightarrow> (case onError of None \<Rightarrow> w' | Some handler \<Rightarrow> handler error w'))"

text \<open>
  \<^verbatim>\<open>useQuery({ queryKey, queryFn })\<close>: the query function runs; when it resolves, what it
  returned becomes the data stored under the key, as it is; when it rejects, the stored
  data stays. Only the stored data is modelled, not the status flags of the query.
\<close>

definition useQuery :: "('res \<Rightarrow> axios_error + 'r list) \<Rightarrow> 'res \<Rightarrow> 'r list option \<Rightarrow> 'r list option" where
  "useQuery queryFn res old = (case queryFn res of Inr data \<Rightarrow> Some data | Inl error \<Rightarrow> old)"

section \<open>Todos\<close>

definition fetchTodos :: "Todo list axios_result \<Rightarrow> axios_error + Todo list" where
  "fetchTodos res = (case res of Inl error \<Rightarrow> Inl error | Inr data_todos \<Rightarrow> Inr data_todos)"

definition Todos_useQuery :: "Todo list axios_result \<Rightarrow> world \<Rightarrow> world" where
  "Todos_useQuery res w = w\<lparr>todos := useQuery fetchTodos res (todos w)\<rparr>"

definition createTodo :: "NewTodo \<Rightarrow> Todo axios_result \<Rightarrow> world \<Rightarrow> (axios_error + Todo) \<times> world" where
  "createTodo newTodo res w = (case res of Inl error \<Rightarrow> (Inl error, w) | Inr data \<Rightarrow> (Inr data, w))"

definition updateTodo :: "Todo \<Rightarrow> Todo axios_result \<Rightarrow> world \<Rightarrow> (axios_error + Todo) \<times> world" where
  "updateTodo v res w =
     (case res of
        Inl error \<Rightarrow> (Inl error, w)
      | Inr data \<Rightarrow>
          (Inr \<lparr>todo_id = todo_id v, todo_todo = todo_todo data,
                todo_completed = todo_completed data, todo_userId = todo_userId data\<rparr>, w))"

definition deleteTodo :: "int \<Rightarrow> unit axios_result \<Rightarrow> world \<Rightarrow> (axios_error + unit) \<times> world" where
  "deleteTodo i res w = (case res of Inl error \<Rightarrow> (Inl error, w) | Inr _ \<Rightarrow> (Inr (), w))"

definition Todos_createMutation :: "NewTodo \<Rightarrow> Todo axios_result \<Rightarrow> world \<Rightarrow> world" where
  "Todos_createMutation =
     useMutation createTodo
       (\<lambda>data _ w. w\<lparr>todos := setQueryData (\<lambda>oldTodos. Some (data # or_else oldTodos [])) (todos w)\<rparr>)
       (Some (\<lambda>error w. w\<lparr>console := console w @ [Console_error ''Failed to add todo:'' error]\<rparr>))"

definition Todos_updateMutation :: "Todo \<Rightarrow> Todo axios_result \<Rightarrow> world \<Rightarrow> world" where
  "Todos_updateMutation =
     useMutation updateTodo
       (\<lambda>updatedTodo _ w. w\<lparr>todos := setQueryData
          (\<lambda>oldTodos. Some (or_else
             (map_option (map (\<lambda>todo. if todo_id todo = todo_id updatedTodo then updatedTodo else todo)) oldTodos)
             []))
          (todos w)\<rparr>)
       (Some (\<lambda>error w. w\<lparr>console := console w @ [Console_error ''Failed to update todo:'' error]\<rparr>))"

definition Todos_deleteMutation :: "int \<Rightarrow> unit axios_result \<Rightarrow> world \<Rightarrow> world" where
  "Todos_deleteMutation =
     useMutation deleteTodo
       (\<lambda>_ deletedId w. w\<lparr>todos := setQueryData
          (\<lambda>oldTodos. map_option (filter (\<lambda>todo. todo_id todo \<noteq> deletedId)) oldTodos)
          (todos w)\<rparr>)
       None"

section \<open>Comments\<close>

definition fetchComments :: "Comment list axios_result \<Rightarrow> axios_error + Comment list" where
  "fetchComments res = (case res of Inl error \<Rightarrow> Inl error | Inr data_comments \<Rightarrow> Inr data_comments)"

definition Comments_useQuery :: "Comment list axios_result \<Rightarrow> world \<Rightarrow> world" where
  "Comments_useQuery res w = w\<lparr>comments := useQuery fetchComments res (comments w)\<rparr>"

definition createComment :: "NewComment \<Rightarrow> Comment axios_result \<Rightarrow> world \<Rightarrow> (axios_error + Comment) \<times> world" where
  "createComment newComment res w = (case res of Inl error \<Rightarrow> (Inl error, w) | Inr data \<Rightarrow> (Inr data, w))"

definition updateComment :: "Comment \<Rightarrow> Comment axios_result \<Rightarrow> world \<Rightarrow> (axios_error + Comment) \<times> world" where
  "updateComment updatedComment res w =
     (case res of
        Inl error \<Rightarrow> (Inl error, w)
      | Inr data \<Rightarrow> (Inr \<lparr>comment_id = comment_id updatedComment, comment_body = comment_body data\<rparr>, w))"

definition deleteComment :: "int \<Rightarrow> unit axios_result \<Rightarrow> world \<Rightarrow> (axios_error + unit) \<times> world" where
  "deleteComment i res w = (case res of Inl error \<Rightarrow> (Inl error, w) | Inr _ \<Rightarrow> (Inr (), w))"

definition Comments_createMutation :: "NewComment \<Rightarrow> Comment axios_result \<Rightarrow> world \<Rightarrow> world" where
  "Comments_createMutation =
     useMutation createComment
       (\<lambda>data _ w. w\<lparr>comments := setQueryData (\<lambda>oldComments. Some (data # or_else oldComments [])) (comments w)\<rparr>)
       (Some (\<lambda>error w. w\<lparr>console := console w @ [Console_error ''Failed to add comment:'' error]\<rparr>))"

definition Comments_updateMutation :: "Comment \<Rightarrow> Comment axios_result \<Rightarrow> world \<Rightarrow> world" where
  "Comments_updateMutation =
     useMutation updateComment
       (\<lambda>updatedComment _ w. w\<lparr>comments := setQueryData
          (\<lambda>oldComments. map_option
             (map (\<lambda>comment. if comment_id comment = comment_id updatedComment then updatedComment else comment))
             oldComments)
          (comments w)\<rparr>)
       None"

definition Comments_deleteMutation :: "int \<Rightarrow> unit axios_result \<Rightarrow> world \<Rightarrow> world" where
  "Comments_deleteMutation =
     useMutation deleteComment
       (\<lambda>_ deletedId w. w\<lparr>comments := setQueryData
          (\<lambda>oldComments. map_option (filter (\<lambda>comment. comment_id comment \<noteq> deletedId)) oldComments)
          (comments w)\<rparr>)
       None"

section \<open>Posts\<close>

definition fetchPosts :: "Post list axios_result \<Rightarrow> axios_error + Post list" where
  "fetchPosts res = (case res of Inl error \<Rightarrow> Inl error | Inr data_posts \<Rightarrow> Inr data_posts)"

definition Posts_useQuery :: "Post list axios_result \<Rightarrow> world \<Rightarrow> world" where
  "Posts_useQuery res w = w\<lparr>posts := useQuery fetchPosts res (posts w)\<rparr>"

definition createPost :: "NewPost \<Rightarrow> Post axios_result \<Rightarrow> world \<Rightarrow> (axios_error + Post) \<times> world" where
  "createPost newPost res w = (case res of Inl error \<Rightarrow> (Inl error, w) | Inr data \<Rightarrow> (Inr data, w))"

definition updatePost :: "Post \<Rightarrow> Post axios_result \<Rightarrow> world \<Rightarrow> (axios_error + Post) \<times> world" where
  "updatePost v res w = (case res of Inl error \<Rightarrow> (Inl error, w) | Inr data \<Rightarrow> (Inr data, w))"

text \<open>\<^verbatim>\<open>deletePost\<close> prints before it sends the request, so the line is there on failure too.\<close>

definition deletePost :: "int \<Rightarrow> unit axios_result \<Rightarrow> world \<Rightarrow> (axios_error + unit) \<times> world" where
  "deletePost i res w =
     (let w' = w\<lparr>console := console w @ [Console_log_id ''Deleting post with ID: '' i]\<rparr>
      in case res of Inl error \<Rightarrow> (Inl error, w') | Inr _ \<Rightarrow> (Inr (), w'))"

definition Posts_createMutation :: "NewPost \<Rightarrow> Post axios_result \<Rightarrow> world \<Rightarrow> world" where
  "Posts_createMutation =
     useMutation createPost
       (\<lambda>newPost _ w. w\<lparr>posts := setQueryData (\<lambda>oldPosts. Some (or_else oldPosts [] @ [newPost])) (posts w)\<rparr>)
       None"

definition Posts_updateMutation :: "Post \<Rightarrow> Post axios_result \<Rightarrow> world \<Rightarrow> world" where
  "Posts_updateMutation =
     useMutation updatePost
       (\<lambda>updatedPost _ w. w\<lparr>posts := setQueryData
          (\<lambda>oldPosts. map_option
             (map (\<lambda>post. if post_id post = post_id updatedPost then updatedPost else post))
             oldPosts)
          (posts w)\<rparr>)
       None"

definition Posts_deleteMutation :: "int \<Rightarrow> unit axios_result \<Rightarrow> world \<Rightarrow> world" where
  "Posts_deleteMutation =
     useMutation deletePost
       (\<lambda>_ deletedId w. w\<lparr>posts := setQueryData
          (\<lambda>oldPosts. map_option (filter (\<lambda>post. post_id post \<noteq> deletedId)) oldPosts)
          (posts w)\<rparr>)
       None"

section \<open>Recipes\<close>

definition fetchRecipes :: "Recipe list axios_result \<Rightarrow> axios_error + Recipe list" where
  "fetchRecipes res = (case res of Inl error \<Rightarrow> Inl error | Inr data_recipes \<Rightarrow> Inr data_recipes)"

definition Recipes_useQuery :: "Recipe list axios_result \<Rightarrow> world \<Rightarrow> world" where
  "Recipes_useQuery res w = w\<lparr>recipes := useQuery fetchRecipes res (recipes w)\<rparr>"

definition createRecipe :: "NewRecipe \<Rightarrow> Recipe axios_result \<Rightarrow> world \<Rightarrow> (axios_error + Recipe) \<times> world" where
  "createRecipe newRecipe res w = (case res of Inl error \<Rightarrow> (Inl error, w) | Inr data \<Rightarrow> (Inr data, w))"

definition updateRecipe :: "Recipe \<Rightarrow> Recipe axios_result \<Rightarrow> world \<Rightarrow> (axios_error + Recipe) \<times> world" where
  "updateRecipe recipe res w = (case res of Inl error \<Rightarrow> (Inl error, w) | Inr data \<Rightarrow> (Inr data, w))"

definition deleteRecipe :: "int \<Rightarrow> unit axios_result \<Rightarrow> world \<Rightarrow> (axios_error + unit) \<times> world" where
  "deleteRecipe i res w =
     (let w' = w\<lparr>console := console w @ [Console_log_id ''Deleting recipe with ID: '' i]\<rparr>
      in case res of Inl error \<Rightarrow> (Inl error, w') | Inr _ \<Rightarrow> (Inr (), w'))"

definition Recipes_createMutation :: "NewRecipe \<Rightarrow> Recipe axios_result \<Rightarrow> world \<Rightarrow> world" where
  "Recipes_createMutation =
     useMutation createRecipe
       (\<lambda>data _ w.
          (w\<lparr>recipes := setQueryData
             (\<lambda>old. case old of Some rs \<Rightarrow> Some (rs @ [data]) | None \<Rightarrow> Some [data])
             (recipes w)\<rparr>)
          \<lparr>console := console w @ [Console_log ''Recipe added successfully!'']\<rparr>)
       None"

definition Recipes_updateMutation :: "Recipe \<Rightarrow> Recipe axios_result \<Rightarrow> world \<Rightarrow> world" where
  "Recipes_updateMutation =
     useMutation updateRecipe
       (\<lambda>updatedRecipe _ w.
          (w\<lparr>recipes := setQueryData
             (\<lambda>old. case old of
                  Some rs \<Rightarrow> Some (map (\<lambda>r. if recipe_id r = recipe_id updatedRecipe then updatedRecipe else r) rs)
                | None \<Rightarrow> Some [])
             (recipes w)\<rparr>)
          \<lparr>console := console w @ [Console_log ''Recipe updated successfully!'']\<rparr>)
       None"

definition Recipes_deleteMutation :: "int \<Rightarrow> unit axios_result \<Rightarrow> world \<Rightarrow> world" where
  "Recipes_deleteMutation =
     useMutation deleteRecipe
       (\<lambda>_ i w.
          (w\<lparr>recipes := setQueryData
             (\<lambda>old. case old of Some rs \<Rightarrow> Some (filter (\<lambda>r. recipe_id r \<noteq> i) rs) | None \<Rightarrow> Some [])
             (recipes w)\<rparr>)
          \<lparr>console := console w @ [Console_log ''Recipe deleted successfully!'']\<rparr>)
       None"

section \<open>Reading a cached collection\<close>

text \<open>
  The Records a cached collection holds: none while the key has no data. Every page
  renders \<^verbatim>\<open>data?.map(...)\<close>, which shows the same for \<^verbatim>\<open>undefined\<close> and for \<^verbatim>\<open>[]\<close>.
\<close>

definition records :: "'r list option \<Rightarrow> 'r list" where
  "records c = or_else c []"

text \<open>The data model's invariant: at most one Record per key.\<close>

definition unique_ids :: "('r \<Rightarrow> int) \<Rightarrow> 'r list option \<Rightarrow> bool" where
  "unique_ids key c = distinct (map key (records c))"

text \<open>The state \<^verbatim>\<open>new QueryClient()\<close> starts in: no key has data, nothing was printed.\<close>

definition initial_world :: world where
  "initial_world = \<lparr>todos = None, comments = None, posts = None, recipes = None, console = []\<rparr>"

text \<open>The query cache: everything in the state but the console.\<close>

definition caches ::
  "world \<Rightarrow> Todo list option \<times> Comment list option \<times> Post list option \<times> Recipe list option" where
  "caches w = (todos w, comments w, posts w, recipes w)"

text \<open>A state in which every page has fetched a small collection, used in the examples.\<close>

definition example_world :: world where
  "example_world =
     \<lparr>todos = Some [\<lparr>todo_id = 1, todo_todo = ''a'', todo_completed = False, todo_userId = 5\<rparr>],
      comments = Some [\<lparr>comment_id = 1, comment_body = ''first''\<rparr>, \<lparr>comment_id = 2, comment_body = ''second''\<rparr>],
      posts = Some [\<lparr>post_id = 1, post_title = ''t'', post_body = ''b'', post_tags = [], post_views = 0, post_userId = 5\<rparr>,
                    \<lparr>post_id = 2, post_title = ''u'', post_body = ''c'', post_tags = [''x''], post_views = 3, post_userId = 5\<rparr>],
      recipes = Some [\<lparr>recipe_id = 1, recipe_name = ''soup'', recipe_ingredients = [''water''], recipe_instructions = ''boil''\<rparr>],
      console = []\<rparr>"

section \<open>Facts about the list patches\<close>

lemma map_replace_keys: "key u = k \<Longrightarrow> map key (map (\<lambda>x. if key x = k then u else x) xs) = map key xs"
  by (induction xs) auto




lemma length_filter_split:
  "length (filter (\<lambda>x. key x \<noteq> k) xs) + length (filter (\<lambda>x. key x = k) xs) = length xs"
  by (induction xs) auto

lemma length_filter_distinct_key:
  "distinct (map key xs) \<Longrightarrow> k \<in> key ` set xs \<Longrightarrow> length (filter (\<lambda>x. key x = k) xs) = 1"
  by (induction xs) (auto simp: image_iff filter_empty_conv)

lemma filter_absent: "k \<notin> key ` set xs \<Longrightarrow> filter (\<lambda>x. key x \<noteq> k) xs = xs"
  by (induction xs) auto

lemma absent_after_filter: "k \<notin> key ` set (filter (\<lambda>x. key x \<noteq> k) xs)"
  by auto

lemma length_filter_unique:
  "distinct (map key xs) \<Longrightarrow> k \<in> key ` set xs \<Longrightarrow> length (filter (\<lambda>x. key x \<noteq> k) xs) + 1 = length xs"
  using length_filter_split [of key k xs] length_filter_distinct_key [of key xs k] by simp

lemma distinct_keys_cons: "distinct (map key (d # xs)) \<longleftrightarrow> key d \<notin> key ` set xs \<and> distinct (map key xs)"
  by simp

lemma distinct_keys_snoc: "distinct (map key (xs @ [d])) \<longleftrightarrow> key d \<notin> key ` set xs \<and> distinct (map key xs)"
  by auto

section \<open>What each mutation does to the state\<close>

lemmas lib_defs = useMutation_def setQueryData_def or_else_def records_def

lemma records_simps [simp]: "records None = []" "records (Some rs) = rs"
  by (simp_all add: records_def or_else_def)

lemma records_map_option: "records (map_option f c) = (case c of None \<Rightarrow> [] | Some rs \<Rightarrow> f rs)"
  by (cases c) simp_all

lemma length_records_map: "length (records (map_option (map f) c)) = length (records c)"
  by (cases c) simp_all

subsection \<open>Resolved requests\<close>

lemma Todos_create_success:
  "Todos_createMutation v (Inr d) w = w\<lparr>todos := Some (d # records (todos w))\<rparr>"
  by (simp add: Todos_createMutation_def createTodo_def lib_defs)

lemma Comments_create_success:
  "Comments_createMutation v (Inr d) w = w\<lparr>comments := Some (d # records (comments w))\<rparr>"
  by (simp add: Comments_createMutation_def createComment_def lib_defs)

lemma Posts_create_success:
  "Posts_createMutation v (Inr d) w = w\<lparr>posts := Some (records (posts w) @ [d])\<rparr>"
  by (simp add: Posts_createMutation_def createPost_def lib_defs)

lemma Recipes_create_success:
  "Recipes_createMutation v (Inr d) w =
     w\<lparr>recipes := Some (records (recipes w) @ [d]),
       console := console w @ [Console_log ''Recipe added successfully!'']\<rparr>"
  by (simp add: Recipes_createMutation_def createRecipe_def lib_defs split: option.split)

lemma Todos_update_success:
  "Todos_updateMutation v (Inr d) w =
     w\<lparr>todos := Some (map (\<lambda>t. if todo_id t = todo_id v then d\<lparr>todo_id := todo_id v\<rparr> else t)
                          (records (todos w)))\<rparr>"
  by (cases d) (simp add: Todos_updateMutation_def updateTodo_def lib_defs split: option.split)

lemma Comments_update_success:
  "Comments_updateMutation v (Inr d) w =
     w\<lparr>comments := map_option
          (map (\<lambda>c. if comment_id c = comment_id v then d\<lparr>comment_id := comment_id v\<rparr> else c))
          (comments w)\<rparr>"
  by (cases d) (simp add: Comments_updateMutation_def updateComment_def lib_defs split: option.split)

lemma Posts_update_success:
  "Posts_updateMutation v (Inr d) w =
     w\<lparr>posts := map_option (map (\<lambda>p. if post_id p = post_id d then d else p)) (posts w)\<rparr>"
  by (simp add: Posts_updateMutation_def updatePost_def lib_defs split: option.split)

lemma Recipes_update_success:
  "Recipes_updateMutation v (Inr d) w =
     w\<lparr>recipes := Some (map (\<lambda>r. if recipe_id r = recipe_id d then d else r) (records (recipes w))),
       console := console w @ [Console_log ''Recipe updated successfully!'']\<rparr>"
  by (simp add: Recipes_updateMutation_def updateRecipe_def lib_defs split: option.split)

lemma Todos_delete_success:
  "Todos_deleteMutation i (Inr u) w =
     w\<lparr>todos := map_option (filter (\<lambda>t. todo_id t \<noteq> i)) (todos w)\<rparr>"
  by (simp add: Todos_deleteMutation_def deleteTodo_def lib_defs split: option.split)

lemma Comments_delete_success:
  "Comments_deleteMutation i (Inr u) w =
     w\<lparr>comments := map_option (filter (\<lambda>c. comment_id c \<noteq> i)) (comments w)\<rparr>"
  by (simp add: Comments_deleteMutation_def deleteComment_def lib_defs split: option.split)

lemma Posts_delete_success:
  "Posts_deleteMutation i (Inr u) w =
     w\<lparr>posts := map_option (filter (\<lambda>p. post_id p \<noteq> i)) (posts w),
       console := console w @ [Console_log_id ''Deleting post with ID: '' i]\<rparr>"
  by (simp add: Posts_deleteMutation_def deletePost_def lib_defs split: option.split)

lemma Recipes_delete_success:
  "Recipes_deleteMutation i (Inr u) w =
     w\<lparr>recipes := Some (filter (\<lambda>r. recipe_id r \<noteq> i) (records (recipes w))),
       console := console w @ [Console_log_id ''Deleting recipe with ID: '' i,
                               Console_log ''Recipe deleted successfully!'']\<rparr>"
  by (simp add: Recipes_deleteMutation_def deleteRecipe_def lib_defs split: option.split)

lemmas create_success =
  Todos_create_success Comments_create_success Posts_create_success Recipes_create_success

lemmas update_success =
  Todos_update_success Comments_update_success Posts_update_success Recipes_update_success

lemmas delete_success =
  Todos_delete_success Comments_delete_success Posts_delete_success Recipes_delete_success

subsection \<open>Rejected requests\<close>

lemma mutation_failure:
  "Todos_createMutation tn (Inl e) w = w\<lparr>console := console w @ [Console_error ''Failed to add todo:'' e]\<rparr>"
  "Todos_updateMutation tv (Inl e) w = w\<lparr>console := console w @ [Console_error ''Failed to update todo:'' e]\<rparr>"
  "Todos_deleteMutation i (Inl e) w = w"
  "Comments_createMutation cn (Inl e) w = w\<lparr>console := console w @ [Console_error ''Failed to add comment:'' e]\<rparr>"
  "Comments_updateMutation cv (Inl e) w = w"
  "Comments_deleteMutation i (Inl e) w = w"
  "Posts_createMutation pn (Inl e) w = w"
  "Posts_updateMutation pv (Inl e) w = w"
  "Posts_deleteMutation i (Inl e) w = w\<lparr>console := console w @ [Console_log_id ''Deleting post with ID: '' i]\<rparr>"
  "Recipes_createMutation rn (Inl e) w = w"
  "Recipes_updateMutation rv (Inl e) w = w"
  "Recipes_deleteMutation i (Inl e) w = w\<lparr>console := console w @ [Console_log_id ''Deleting recipe with ID: '' i]\<rparr>"
  by (simp_all add: Todos_createMutation_def Todos_updateMutation_def Todos_deleteMutation_def
      Comments_createMutation_def Comments_updateMutation_def Comments_deleteMutation_def
      Posts_createMutation_def Posts_updateMutation_def Posts_deleteMutation_def
      Recipes_createMutation_def Recipes_updateMutation_def Recipes_deleteMutation_def
      createTodo_def updateTodo_def deleteTodo_def createComment_def updateComment_def deleteComment_def
      createPost_def updatePost_def deletePost_def createRecipe_def updateRecipe_def deleteRecipe_def
      useMutation_def)

subsection \<open>The Records after a resolved request\<close>

lemma Todos_create_records: "records (todos (Todos_createMutation v (Inr d) w)) = d # records (todos w)"
  by (simp add: Todos_create_success)

lemma Comments_create_records: "records (comments (Comments_createMutation v (Inr d) w)) = d # records (comments w)"
  by (simp add: Comments_create_success)

lemma Posts_create_records: "records (posts (Posts_createMutation v (Inr d) w)) = records (posts w) @ [d]"
  by (simp add: Posts_create_success)

lemma Recipes_create_records: "records (recipes (Recipes_createMutation v (Inr d) w)) = records (recipes w) @ [d]"
  by (simp add: Recipes_create_success)

lemma useQuery_records:
  "records (todos (Todos_useQuery (Inr tds) w)) = tds"
  "records (comments (Comments_useQuery (Inr cds) w)) = cds"
  "records (posts (Posts_useQuery (Inr pds) w)) = pds"
  "records (recipes (Recipes_useQuery (Inr rds) w)) = rds"
  by (simp_all add: Todos_useQuery_def Comments_useQuery_def Posts_useQuery_def Recipes_useQuery_def
      useQuery_def fetchTodos_def fetchComments_def fetchPosts_def fetchRecipes_def)

lemmas create_records = Todos_create_records Comments_create_records Posts_create_records Recipes_create_records

lemma Todos_update_records:
  "records (todos (Todos_updateMutation v (Inr d) w)) =
     map (\<lambda>t. if todo_id t = todo_id v then d\<lparr>todo_id := todo_id v\<rparr> else t) (records (todos w))"
  by (simp add: Todos_update_success)

lemma Comments_update_records:
  "records (comments (Comments_updateMutation v (Inr d) w)) =
     map (\<lambda>c. if comment_id c = comment_id v then d\<lparr>comment_id := comment_id v\<rparr> else c) (records (comments w))"
  by (simp add: Comments_update_success records_map_option split: option.split)

lemma Posts_update_records:
  "records (posts (Posts_updateMutation v (Inr d) w)) =
     map (\<lambda>p. if post_id p = post_id d then d else p) (records (posts w))"
  by (simp add: Posts_update_success records_map_option split: option.split)

lemma Recipes_update_records:
  "records (recipes (Recipes_updateMutation v (Inr d) w)) =
     map (\<lambda>r. if recipe_id r = recipe_id d then d else r) (records (recipes w))"
  by (simp add: Recipes_update_success)

lemma Todos_delete_records:
  "records (todos (Todos_deleteMutation i (Inr u) w)) = filter (\<lambda>t. todo_id t \<noteq> i) (records (todos w))"
  by (simp add: Todos_delete_success records_map_option split: option.split)

lemma Comments_delete_records:
  "records (comments (Comments_deleteMutation i (Inr u) w)) = filter (\<lambda>c. comment_id c \<noteq> i) (records (comments w))"
  by (simp add: Comments_delete_success records_map_option split: option.split)

lemma Posts_delete_records:
  "records (posts (Posts_deleteMutation i (Inr u) w)) = filter (\<lambda>p. post_id p \<noteq> i) (records (posts w))"
  by (simp add: Posts_delete_success records_map_option split: option.split)

lemma Recipes_delete_records:
  "records (recipes (Recipes_deleteMutation i (Inr u) w)) = filter (\<lambda>r. recipe_id r \<noteq> i) (records (recipes w))"
  by (simp add: Recipes_delete_success)


lemmas update_records = Todos_update_records Comments_update_records Posts_update_records Recipes_update_records

lemmas delete_records = Todos_delete_records Comments_delete_records Posts_delete_records Recipes_delete_records






lemma Todos_update_keys:
  "map todo_id (records (todos (Todos_updateMutation v (Inr d) w))) = map todo_id (records (todos w))"
  unfolding Todos_update_records by (rule map_replace_keys) simp

lemma Comments_update_keys:
  "map comment_id (records (comments (Comments_updateMutation v (Inr d) w))) = map comment_id (records (comments w))"
  unfolding Comments_update_records by (rule map_replace_keys) simp

lemma Posts_update_keys:
  "map post_id (records (posts (Posts_updateMutation v (Inr d) w))) = map post_id (records (posts w))"
  unfolding Posts_update_records by (rule map_replace_keys) simp

lemma Recipes_update_keys:
  "map recipe_id (records (recipes (Recipes_updateMutation v (Inr d) w))) = map recipe_id (records (recipes w))"
  unfolding Recipes_update_records by (rule map_replace_keys) simp

lemmas update_keys = Todos_update_keys Comments_update_keys Posts_update_keys Recipes_update_keys

section \<open>Create\<close>

text \<open>
  Claim C1. After every successful create, on each of the four pages, the cached
  collection holds exactly the Records it held before and one more, and the added Record
  is the body the service answered with, so its key is the id the service assigned: the
  create functions return \<^verbatim>\<open>res.data\<close> as it is. A key without data counts as holding
  no Records.
\<close>

theorem create_adds_exactly_the_returned_record:
  "mset (records (todos (Todos_createMutation tv (Inr td) w))) = add_mset td (mset (records (todos w)))
   \<and> mset (records (comments (Comments_createMutation cv (Inr cd) w))) = add_mset cd (mset (records (comments w)))
   \<and> mset (records (posts (Posts_createMutation pv (Inr pd) w))) = add_mset pd (mset (records (posts w)))
   \<and> mset (records (recipes (Recipes_createMutation rv (Inr rd) w))) = add_mset rd (mset (records (recipes w)))
   \<and> length (records (todos (Todos_createMutation tv (Inr td) w))) = length (records (todos w)) + 1
   \<and> length (records (comments (Comments_createMutation cv (Inr cd) w))) = length (records (comments w)) + 1
   \<and> length (records (posts (Posts_createMutation pv (Inr pd) w))) = length (records (posts w)) + 1
   \<and> length (records (recipes (Recipes_createMutation rv (Inr rd) w))) = length (records (recipes w)) + 1
   \<and> fst (createTodo tv (Inr td) w) = Inr td
   \<and> fst (createComment cv (Inr cd) w) = Inr cd
   \<and> fst (createPost pv (Inr pd) w) = Inr pd
   \<and> fst (createRecipe rv (Inr rd) w) = Inr rd"
  by (simp add: create_success createTodo_def createComment_def createPost_def createRecipe_def)

text \<open>
  Claim C8. Where the new Record goes is fixed per page and differs between pages: the
  todos and comments pages put it in front of the cached sequence, the posts and recipes
  pages put it at the end.
\<close>

theorem create_position_per_resource:
  "records (todos (Todos_createMutation tv (Inr td) w)) = td # records (todos w)
   \<and> records (comments (Comments_createMutation cv (Inr cd) w)) = cd # records (comments w)
   \<and> records (posts (Posts_createMutation pv (Inr pd) w)) = records (posts w) @ [pd]
   \<and> records (recipes (Recipes_createMutation rv (Inr rd) w)) = records (recipes w) @ [rd]"
  by (simp add: create_success)

section \<open>Update\<close>




text \<open>
  Claim C10. A successful update never changes how many Records the cached collection
  holds, whether or not a Record with the key is there: the patch maps over the sequence.
\<close>

theorem update_keeps_number_of_records:
  "length (records (todos (Todos_updateMutation tv (Inr td) w))) = length (records (todos w))
   \<and> length (records (comments (Comments_updateMutation cv (Inr cd) w))) = length (records (comments w))
   \<and> length (records (posts (Posts_updateMutation pv (Inr pd) w))) = length (records (posts w))
   \<and> length (records (recipes (Recipes_updateMutation rv (Inr rd) w))) = length (records (recipes w))"
  by (simp add: update_success length_records_map)




section \<open>Delete\<close>

text \<open>
  Claim C3, as amended. After a successful delete the cached collection holds no Record
  with the key, and it has shrunk by the number of Records that carried the key: by
  exactly one when the collection held at most one Record per key and the key was there,
  by none when the key was absent, in which case the Records are the ones that were
  there, in the same order.
\<close>

theorem delete_removes_every_record_with_key:
  "i \<notin> todo_id ` set (records (todos (Todos_deleteMutation i (Inr u) w)))
   \<and> length (records (todos (Todos_deleteMutation i (Inr u) w)))
        + length (filter (\<lambda>t. todo_id t = i) (records (todos w))) = length (records (todos w))
   \<and> (unique_ids todo_id (todos w) \<and> i \<in> todo_id ` set (records (todos w)) \<longrightarrow>
        length (records (todos (Todos_deleteMutation i (Inr u) w))) + 1 = length (records (todos w)))
   \<and> (i \<notin> todo_id ` set (records (todos w)) \<longrightarrow>
        records (todos (Todos_deleteMutation i (Inr u) w)) = records (todos w))
   \<and> i \<notin> comment_id ` set (records (comments (Comments_deleteMutation i (Inr u) w)))
   \<and> length (records (comments (Comments_deleteMutation i (Inr u) w)))
        + length (filter (\<lambda>c. comment_id c = i) (records (comments w))) = length (records (comments w))
   \<and> (unique_ids comment_id (comments w) \<and> i \<in> comment_id ` set (records (comments w)) \<longrightarrow>
        length (records (comments (Comments_deleteMutation i (Inr u) w))) + 1 = length (records (comments w)))
   \<and> (i \<notin> comment_id ` set (records (comments w)) \<longrightarrow>
        records (comments (Comments_deleteMutation i (Inr u) w)) = records (comments w))
   \<and> i \<notin> post_id ` set (records (posts (Posts_deleteMutation i (Inr u) w)))
   \<and> length (records (posts (Posts_deleteMutation i (Inr u) w)))
        + length (filter (\<lambda>p. post_id p = i) (records (posts w))) = length (records (posts w))
   \<and> (unique_ids post_id (posts w) \<and> i \<in> post_id ` set (records (posts w)) \<longrightarrow>
        length (records (posts (Posts_deleteMutation i (Inr u) w))) + 1 = length (records (posts w)))
   \<and> (i \<notin> post_id ` set (records (posts w)) \<longrightarrow>
        records (posts (Posts_deleteMutation i (Inr u) w)) = records (posts w))
   \<and> i \<notin> recipe_id ` set (records (recipes (Recipes_deleteMutation i (Inr u) w)))
   \<and> length (records (recipes (Recipes_deleteMutation i (Inr u) w)))
        + length (filter (\<lambda>r. recipe_id r = i) (records (recipes w))) = length (records (recipes w))
   \<and> (unique_ids recipe_id (recipes w) \<and> i \<in> recipe_id ` set (records (recipes w)) \<longrightarrow>
        length (records (recipes (Recipes_deleteMutation i (Inr u) w))) + 1 = length (records (recipes w)))
   \<and> (i \<notin> recipe_id ` set (records (recipes w)) \<longrightarrow>
        records (recipes (Recipes_deleteMutation i (Inr u) w)) = records (recipes w))"
  unfolding delete_records unique_ids_def
  by (intro conjI impI absent_after_filter length_filter_split length_filter_unique filter_absent; simp)

theorem delete_removes_every_record_with_key_witness:
  "unique_ids todo_id (todos example_world) \<and> (1::int) \<in> todo_id ` set (records (todos example_world))
   \<and> length (records (todos (Todos_deleteMutation 1 (Inr ()) example_world))) + 1
       = length (records (todos example_world))
   \<and> (7::int) \<notin> todo_id ` set (records (todos example_world))
   \<and> records (todos (Todos_deleteMutation 7 (Inr ()) example_world)) = records (todos example_world)
   \<and> unique_ids comment_id (comments example_world) \<and> (2::int) \<in> comment_id ` set (records (comments example_world))
   \<and> records (comments (Comments_deleteMutation 2 (Inr ()) example_world))
       = [\<lparr>comment_id = 1, comment_body = ''first''\<rparr>]
   \<and> (7::int) \<notin> comment_id ` set (records (comments example_world))
   \<and> records (comments (Comments_deleteMutation 7 (Inr ()) example_world)) = records (comments example_world)
   \<and> unique_ids post_id (posts example_world) \<and> (2::int) \<in> post_id ` set (records (posts example_world))
   \<and> length (records (posts (Posts_deleteMutation 2 (Inr ()) example_world))) + 1
       = length (records (posts example_world))
   \<and> (7::int) \<notin> post_id ` set (records (posts example_world))
   \<and> records (posts (Posts_deleteMutation 7 (Inr ()) example_world)) = records (posts example_world)
   \<and> unique_ids recipe_id (recipes example_world) \<and> (1::int) \<in> recipe_id ` set (records (recipes example_world))
   \<and> length (records (recipes (Recipes_deleteMutation 1 (Inr ()) example_world))) + 1
       = length (records (recipes example_world))
   \<and> (7::int) \<notin> recipe_id ` set (records (recipes example_world))
   \<and> records (recipes (Recipes_deleteMutation 7 (Inr ()) example_world)) = records (recipes example_world)"
  using delete_removes_every_record_with_key [of 1 "()" example_world]
        delete_removes_every_record_with_key [of 2 "()" example_world]
        delete_removes_every_record_with_key [of 7 "()" example_world]
  by (simp add: delete_records unique_ids_def example_world_def)

text \<open>
  Claim C3 as stated fails on a collection that two creates answered with the same id
  have filled: the key is there, and the delete removes two Records, not one.
\<close>

theorem delete_size_counterexample:
  "(151::int) \<in> todo_id ` set (records (todos
       (Todos_createMutation \<lparr>newTodo_todo = ''b'', newTodo_completed = False, newTodo_userId = 1\<rparr>
          (Inr \<lparr>todo_id = 151, todo_todo = ''b'', todo_completed = False, todo_userId = 1\<rparr>)
       (Todos_createMutation \<lparr>newTodo_todo = ''a'', newTodo_completed = False, newTodo_userId = 1\<rparr>
          (Inr \<lparr>todo_id = 151, todo_todo = ''a'', todo_completed = False, todo_userId = 1\<rparr>)
        initial_world))))
   \<and> length (records (todos
       (Todos_createMutation \<lparr>newTodo_todo = ''b'', newTodo_completed = False, newTodo_userId = 1\<rparr>
          (Inr \<lparr>todo_id = 151, todo_todo = ''b'', todo_completed = False, todo_userId = 1\<rparr>)
       (Todos_createMutation \<lparr>newTodo_todo = ''a'', newTodo_completed = False, newTodo_userId = 1\<rparr>
          (Inr \<lparr>todo_id = 151, todo_todo = ''a'', todo_completed = False, todo_userId = 1\<rparr>)
        initial_world)))) = 2
   \<and> length (records (todos
       (Todos_deleteMutation 151 (Inr ())
       (Todos_createMutation \<lparr>newTodo_todo = ''b'', newTodo_completed = False, newTodo_userId = 1\<rparr>
          (Inr \<lparr>todo_id = 151, todo_todo = ''b'', todo_completed = False, todo_userId = 1\<rparr>)
       (Todos_createMutation \<lparr>newTodo_todo = ''a'', newTodo_completed = False, newTodo_userId = 1\<rparr>
          (Inr \<lparr>todo_id = 151, todo_todo = ''a'', todo_completed = False, todo_userId = 1\<rparr>)
        initial_world))))) = 0"
  by (simp add: delete_records create_records initial_world_def)

text \<open>
  Claim C6. Deleting the same key twice, both requests resolving, leaves every cached
  collection as the first delete left it. (The posts and recipes pages print a line per
  delete, so the console is set aside in the comparison.)
\<close>

theorem delete_twice_is_delete_once:
  "(Todos_deleteMutation i (Inr u) (Todos_deleteMutation i (Inr u) w))\<lparr>console := []\<rparr>
     = (Todos_deleteMutation i (Inr u) w)\<lparr>console := []\<rparr>
   \<and> (Comments_deleteMutation i (Inr u) (Comments_deleteMutation i (Inr u) w))\<lparr>console := []\<rparr>
     = (Comments_deleteMutation i (Inr u) w)\<lparr>console := []\<rparr>
   \<and> (Posts_deleteMutation i (Inr u) (Posts_deleteMutation i (Inr u) w))\<lparr>console := []\<rparr>
     = (Posts_deleteMutation i (Inr u) w)\<lparr>console := []\<rparr>
   \<and> (Recipes_deleteMutation i (Inr u) (Recipes_deleteMutation i (Inr u) w))\<lparr>console := []\<rparr>
     = (Recipes_deleteMutation i (Inr u) w)\<lparr>console := []\<rparr>"
  by (simp add: delete_success option.map_comp comp_def)

section \<open>Rejected requests\<close>

text \<open>
  Claim C4. When the request of a create, update or delete rejects, no cached collection
  changes, on any page. The todos page prints the error for create and update, the
  comments page for create; the other mutations have no \<^verbatim>\<open>onError\<close> and print nothing on
  that branch (the delete functions of the posts and recipes pages have printed their
  line before the request was sent).
\<close>

theorem failed_mutation_leaves_cache:
  "caches (Todos_createMutation tn (Inl e) w) = caches w
   \<and> caches (Todos_updateMutation tv (Inl e) w) = caches w
   \<and> caches (Todos_deleteMutation i (Inl e) w) = caches w
   \<and> caches (Comments_createMutation cn (Inl e) w) = caches w
   \<and> caches (Comments_updateMutation cv (Inl e) w) = caches w
   \<and> caches (Comments_deleteMutation i (Inl e) w) = caches w
   \<and> caches (Posts_createMutation pn (Inl e) w) = caches w
   \<and> caches (Posts_updateMutation pv (Inl e) w) = caches w
   \<and> caches (Posts_deleteMutation i (Inl e) w) = caches w
   \<and> caches (Recipes_createMutation rn (Inl e) w) = caches w
   \<and> caches (Recipes_updateMutation rv (Inl e) w) = caches w
   \<and> caches (Recipes_deleteMutation i (Inl e) w) = caches w
   \<and> console (Todos_createMutation tn (Inl e) w) = console w @ [Console_error ''Failed to add todo:'' e]
   \<and> console (Todos_updateMutation tv (Inl e) w) = console w @ [Console_error ''Failed to update todo:'' e]
   \<and> console (Todos_deleteMutation i (Inl e) w) = console w
   \<and> console (Comments_createMutation cn (Inl e) w) = console w @ [Console_error ''Failed to add comment:'' e]
   \<and> console (Comments_updateMutation cv (Inl e) w) = console w
   \<and> console (Comments_deleteMutation i (Inl e) w) = console w
   \<and> console (Posts_createMutation pn (Inl e) w) = console w
   \<and> console (Posts_updateMutation pv (Inl e) w) = console w
   \<and> console (Posts_deleteMutation i (Inl e) w) = console w @ [Console_log_id ''Deleting post with ID: '' i]
   \<and> console (Recipes_createMutation rn (Inl e) w) = console w
   \<and> console (Recipes_updateMutation rv (Inl e) w) = console w
   \<and> console (Recipes_deleteMutation i (Inl e) w) = console w @ [Console_log_id ''Deleting recipe with ID: '' i]"
  by (simp add: caches_def mutation_failure)

section \<open>The invariant of the cached collection\<close>

text \<open>
  Claim C5, as amended. A successful update and a successful delete keep "at most one
  Record per key" on every page. A successful create keeps it exactly when the key the
  service assigned is not yet in the cached collection: no create handler looks for the
  key before it inserts. A successful fetch stores the sequence the service sent as it
  is, whatever was cached before, so the cached collection has at most one Record per key
  afterwards exactly when the sequence the service sent has.
\<close>

theorem unique_ids_preserved_except_by_duplicate_create:
  "(unique_ids todo_id (todos w) \<longrightarrow> unique_ids todo_id (todos (Todos_updateMutation tv (Inr td) w)))
   \<and> (unique_ids todo_id (todos w) \<longrightarrow> unique_ids todo_id (todos (Todos_deleteMutation i (Inr u) w)))
   \<and> (unique_ids todo_id (todos w) \<longrightarrow>
        (unique_ids todo_id (todos (Todos_createMutation tn (Inr td) w))
           \<longleftrightarrow> todo_id td \<notin> todo_id ` set (records (todos w))))
   \<and> (unique_ids comment_id (comments w) \<longrightarrow> unique_ids comment_id (comments (Comments_updateMutation cv (Inr cd) w)))
   \<and> (unique_ids comment_id (comments w) \<longrightarrow> unique_ids comment_id (comments (Comments_deleteMutation i (Inr u) w)))
   \<and> (unique_ids comment_id (comments w) \<longrightarrow>
        (unique_ids comment_id (comments (Comments_createMutation cn (Inr cd) w))
           \<longleftrightarrow> comment_id cd \<notin> comment_id ` set (records (comments w))))
   \<and> (unique_ids post_id (posts w) \<longrightarrow> unique_ids post_id (posts (Posts_updateMutation pv (Inr pd) w)))
   \<and> (unique_ids post_id (posts w) \<longrightarrow> unique_ids post_id (posts (Posts_deleteMutation i (Inr u) w)))
   \<and> (unique_ids post_id (posts w) \<longrightarrow>
        (unique_ids post_id (posts (Posts_createMutation pn (Inr pd) w))
           \<longleftrightarrow> post_id pd \<notin> post_id ` set (records (posts w))))
   \<and> (unique_ids recipe_id (recipes w) \<longrightarrow> unique_ids recipe_id (recipes (Recipes_updateMutation rv (Inr rd) w)))
   \<and> (unique_ids recipe_id (recipes w) \<longrightarrow> unique_ids recipe_id (recipes (Recipes_deleteMutation i (Inr u) w)))
   \<and> (unique_ids recipe_id (recipes w) \<longrightarrow>
        (unique_ids recipe_id (recipes (Recipes_createMutation rn (Inr rd) w))
           \<longleftrightarrow> recipe_id rd \<notin> recipe_id ` set (records (recipes w))))
   \<and> (unique_ids todo_id (todos (Todos_useQuery (Inr tds) w)) \<longleftrightarrow> distinct (map todo_id tds))
   \<and> (unique_ids comment_id (comments (Comments_useQuery (Inr cds) w)) \<longleftrightarrow> distinct (map comment_id cds))
   \<and> (unique_ids post_id (posts (Posts_useQuery (Inr pds) w)) \<longleftrightarrow> distinct (map post_id pds))
   \<and> (unique_ids recipe_id (recipes (Recipes_useQuery (Inr rds) w)) \<longleftrightarrow> distinct (map recipe_id rds))
   \<and> todos (Todos_useQuery (Inr tds) w) = Some tds
   \<and> comments (Comments_useQuery (Inr cds) w) = Some cds
   \<and> posts (Posts_useQuery (Inr pds) w) = Some pds
   \<and> recipes (Recipes_useQuery (Inr rds) w) = Some rds"
  unfolding unique_ids_def update_keys delete_records create_records useQuery_records
    distinct_keys_cons distinct_keys_snoc
  by (simp add: distinct_map_filter
        Todos_useQuery_def Comments_useQuery_def Posts_useQuery_def Recipes_useQuery_def
        useQuery_def fetchTodos_def fetchComments_def fetchPosts_def fetchRecipes_def)

theorem unique_ids_preserved_except_by_duplicate_create_witness:
  "unique_ids todo_id (todos example_world)
   \<and> unique_ids todo_id (todos (Todos_updateMutation
        \<lparr>todo_id = 1, todo_todo = ''a'', todo_completed = True, todo_userId = 5\<rparr>
        (Inr \<lparr>todo_id = 1, todo_todo = ''a'', todo_completed = True, todo_userId = 5\<rparr>) example_world))
   \<and> unique_ids todo_id (todos (Todos_deleteMutation 1 (Inr ()) example_world))
   \<and> unique_ids todo_id (todos (Todos_createMutation
        \<lparr>newTodo_todo = ''b'', newTodo_completed = False, newTodo_userId = 5\<rparr>
        (Inr \<lparr>todo_id = 2, todo_todo = ''b'', todo_completed = False, todo_userId = 5\<rparr>) example_world))
   \<and> unique_ids comment_id (comments example_world)
   \<and> unique_ids comment_id (comments (Comments_updateMutation \<lparr>comment_id = 2, comment_body = ''edited''\<rparr>
        (Inr \<lparr>comment_id = 2, comment_body = ''edited''\<rparr>) example_world))
   \<and> unique_ids comment_id (comments (Comments_deleteMutation 1 (Inr ()) example_world))
   \<and> unique_ids comment_id (comments (Comments_createMutation \<lparr>newComment_body = ''third''\<rparr>
        (Inr \<lparr>comment_id = 3, comment_body = ''third''\<rparr>) example_world))
   \<and> unique_ids post_id (posts example_world)
   \<and> unique_ids post_id (posts (Posts_updateMutation
        \<lparr>post_id = 1, post_title = ''t2'', post_body = ''b'', post_tags = [], post_views = 0, post_userId = 5\<rparr>
        (Inr \<lparr>post_id = 1, post_title = ''t2'', post_body = ''b'', post_tags = [], post_views = 0, post_userId = 5\<rparr>)
        example_world))
   \<and> unique_ids post_id (posts (Posts_deleteMutation 1 (Inr ()) example_world))
   \<and> unique_ids post_id (posts (Posts_createMutation
        \<lparr>newPost_title = ''v'', newPost_body = ''d'', newPost_tags = [], newPost_userId = 5\<rparr>
        (Inr \<lparr>post_id = 3, post_title = ''v'', post_body = ''d'', post_tags = [], post_views = 0, post_userId = 5\<rparr>)
        example_world))
   \<and> unique_ids recipe_id (recipes example_world)
   \<and> unique_ids recipe_id (recipes (Recipes_updateMutation
        \<lparr>recipe_id = 1, recipe_name = ''stew'', recipe_ingredients = [''water''], recipe_instructions = ''boil''\<rparr>
        (Inr \<lparr>recipe_id = 1, recipe_name = ''stew'', recipe_ingredients = [''water''], recipe_instructions = ''boil''\<rparr>)
        example_world))
   \<and> unique_ids recipe_id (recipes (Recipes_deleteMutation 1 (Inr ()) example_world))
   \<and> unique_ids recipe_id (recipes (Recipes_createMutation
        \<lparr>newRecipe_name = ''tea'', newRecipe_ingredients = [''leaves''], newRecipe_instructions = ''steep''\<rparr>
        (Inr \<lparr>recipe_id = 2, recipe_name = ''tea'', recipe_ingredients = [''leaves''], recipe_instructions = ''steep''\<rparr>)
        example_world))
   \<and> unique_ids todo_id (todos (Todos_useQuery
        (Inr [\<lparr>todo_id = 3, todo_todo = ''c'', todo_completed = False, todo_userId = 5\<rparr>,
              \<lparr>todo_id = 4, todo_todo = ''d'', todo_completed = True, todo_userId = 5\<rparr>])
        example_world))
   \<and> unique_ids comment_id (comments (Comments_useQuery
        (Inr [\<lparr>comment_id = 3, comment_body = ''third''\<rparr>]) example_world))
   \<and> unique_ids post_id (posts (Posts_useQuery
        (Inr [\<lparr>post_id = 3, post_title = ''v'', post_body = ''d'', post_tags = [], post_views = 0, post_userId = 5\<rparr>])
        example_world))
   \<and> unique_ids recipe_id (recipes (Recipes_useQuery
        (Inr [\<lparr>recipe_id = 2, recipe_name = ''tea'', recipe_ingredients = [''leaves''], recipe_instructions = ''steep''\<rparr>])
        example_world))"
  using unique_ids_preserved_except_by_duplicate_create
    [where w = example_world and i = 1 and u = "()"
       and tv = "\<lparr>todo_id = 1, todo_todo = ''a'', todo_completed = True, todo_userId = 5\<rparr>"
       and td = "\<lparr>todo_id = 1, todo_todo = ''a'', todo_completed = True, todo_userId = 5\<rparr>"
       and cv = "\<lparr>comment_id = 2, comment_body = ''edited''\<rparr>"
       and cd = "\<lparr>comment_id = 2, comment_body = ''edited''\<rparr>"
       and pv = "\<lparr>post_id = 1, post_title = ''t2'', post_body = ''b'', post_tags = [], post_views = 0, post_userId = 5\<rparr>"
       and pd = "\<lparr>post_id = 1, post_title = ''t2'', post_body = ''b'', post_tags = [], post_views = 0, post_userId = 5\<rparr>"
       and rv = "\<lparr>recipe_id = 1, recipe_name = ''stew'', recipe_ingredients = [''water''], recipe_instructions = ''boil''\<rparr>"
       and rd = "\<lparr>recipe_id = 1, recipe_name = ''stew'', recipe_ingredients = [''water''], recipe_instructions = ''boil''\<rparr>"]
    unique_ids_preserved_except_by_duplicate_create
    [where w = example_world
       and tn = "\<lparr>newTodo_todo = ''b'', newTodo_completed = False, newTodo_userId = 5\<rparr>"
       and td = "\<lparr>todo_id = 2, todo_todo = ''b'', todo_completed = False, todo_userId = 5\<rparr>"
       and cn = "\<lparr>newComment_body = ''third''\<rparr>"
       and cd = "\<lparr>comment_id = 3, comment_body = ''third''\<rparr>"
       and pn = "\<lparr>newPost_title = ''v'', newPost_body = ''d'', newPost_tags = [], newPost_userId = 5\<rparr>"
       and pd = "\<lparr>post_id = 3, post_title = ''v'', post_body = ''d'', post_tags = [], post_views = 0, post_userId = 5\<rparr>"
       and rn = "\<lparr>newRecipe_name = ''tea'', newRecipe_ingredients = [''leaves''], newRecipe_instructions = ''steep''\<rparr>"
       and rd = "\<lparr>recipe_id = 2, recipe_name = ''tea'', recipe_ingredients = [''leaves''], recipe_instructions = ''steep''\<rparr>"
       and tds = "[\<lparr>todo_id = 3, todo_todo = ''c'', todo_completed = False, todo_userId = 5\<rparr>,
                   \<lparr>todo_id = 4, todo_todo = ''d'', todo_completed = True, todo_userId = 5\<rparr>]"
       and cds = "[\<lparr>comment_id = 3, comment_body = ''third''\<rparr>]"
       and pds = "[\<lparr>post_id = 3, post_title = ''v'', post_body = ''d'', post_tags = [], post_views = 0, post_userId = 5\<rparr>]"
       and rds = "[\<lparr>recipe_id = 2, recipe_name = ''tea'', recipe_ingredients = [''leaves''], recipe_instructions = ''steep''\<rparr>]"]
  by (simp add: unique_ids_def update_records delete_records create_records useQuery_records example_world_def)

text \<open>
  Claim C5 as stated fails, for create and for fetch. Starting with no data, a first
  create answered with id 151 leaves a collection with unique keys; a second create that
  the service also answers with id 151 leaves two Records with key 151. And a fetch into
  a collection with unique keys, answered with a sequence that lists id 1 twice, leaves
  two Records with key 1.
\<close>

theorem unique_ids_broken_by_create_and_fetch_counterexample:
  "unique_ids todo_id (todos
       (Todos_createMutation \<lparr>newTodo_todo = ''a'', newTodo_completed = False, newTodo_userId = 1\<rparr>
          (Inr \<lparr>todo_id = 151, todo_todo = ''a'', todo_completed = False, todo_userId = 1\<rparr>)
        initial_world))
   \<and> \<not> unique_ids todo_id (todos
       (Todos_createMutation \<lparr>newTodo_todo = ''b'', newTodo_completed = False, newTodo_userId = 1\<rparr>
          (Inr \<lparr>todo_id = 151, todo_todo = ''b'', todo_completed = False, todo_userId = 1\<rparr>)
       (Todos_createMutation \<lparr>newTodo_todo = ''a'', newTodo_completed = False, newTodo_userId = 1\<rparr>
          (Inr \<lparr>todo_id = 151, todo_todo = ''a'', todo_completed = False, todo_userId = 1\<rparr>)
        initial_world)))
   \<and> unique_ids todo_id (todos example_world)
   \<and> \<not> unique_ids todo_id (todos (Todos_useQuery
        (Inr [\<lparr>todo_id = 1, todo_todo = ''a'', todo_completed = False, todo_userId = 5\<rparr>,
              \<lparr>todo_id = 1, todo_todo = ''b'', todo_completed = True, todo_userId = 5\<rparr>])
        example_world))"
  by (simp add: unique_ids_def create_records useQuery_records initial_world_def example_world_def)

end
